theory Spec2Isabelle
  imports Complex_Main "HOL-Library.Char_ord" "HOL-Library.List_Lexorder"
begin

section \<open>Python values and errors\<close>

text \<open>
  The exceptions that \<^verbatim>\<open>lib/ditty/trainer.py\<close> can raise by itself, as values.
  A function of the model that can raise returns \<open>py_error + 'a\<close>, with \<open>Inl\<close> for the
  exception.
\<close>

datatype py_error =
    FileNotFoundError
  | IndexError
  | KeyError
  | ValueError
  | ZeroDivisionError
  | TypeError

text \<open>
  The numbers held by a \<^verbatim>\<open>TrainerState\<close>: Python ints (unbounded) and floats.
  Floats are idealised as reals: rounding, infinities and NaN are not modelled.
\<close>

datatype pynum = PInt int | PFloat real

fun py_real :: "pynum \<Rightarrow> real" where
  "py_real (PInt i) = of_int i"
| "py_real (PFloat x) = x"

text \<open>\<^verbatim>\<open>a + b\<close>: int + int is an int, anything else a float.\<close>

fun py_add :: "pynum \<Rightarrow> pynum \<Rightarrow> pynum" where
  "py_add (PInt a) (PInt b) = PInt (a + b)"
| "py_add a b = PFloat (py_real a + py_real b)"

text \<open>\<^verbatim>\<open>a / b\<close>: true division, a float; a zero divisor raises.\<close>

definition py_truediv :: "pynum \<Rightarrow> pynum \<Rightarrow> py_error + pynum" where
  "py_truediv a b =
     (if py_real b = 0 then Inl ZeroDivisionError
      else Inr (PFloat (py_real a / py_real b)))"

text \<open>\<^verbatim>\<open>d[k]\<close> on a dict: a missing key raises \<^verbatim>\<open>KeyError\<close>.\<close>

definition getitem :: "('k \<rightharpoonup> 'v) \<Rightarrow> 'k \<Rightarrow> py_error + 'v" where
  "getitem d k = (case d k of None \<Rightarrow> Inl KeyError | Some v \<Rightarrow> Inr v)"

section \<open>TrainerState\<close>

text \<open>
  \<^verbatim>\<open>
  @dataclass(kw_only=True)
  class TrainerState():
      epoch: int = 0
      steps: int = 0
      global_loss: int = 0
  \<close>
  Python does not enforce the annotations, and neither \<^verbatim>\<open>state_dict\<close> nor
  \<^verbatim>\<open>load_state_dict\<close> looks at the values, so the record is polymorphic in the type
  of the values its fields hold.
\<close>

record 'v trainer_state =
  epoch :: 'v
  steps :: 'v
  global_loss :: 'v

definition TrainerState :: "pynum trainer_state" where
  "TrainerState = \<lparr>epoch = PInt 0, steps = PInt 0, global_loss = PInt 0\<rparr>"

definition state_dict :: "'v trainer_state \<Rightarrow> (string \<rightharpoonup> 'v)" where
  "state_dict s =
     [''epoch'' \<mapsto> epoch s, ''steps'' \<mapsto> steps s, ''global_loss'' \<mapsto> global_loss s]"

text \<open>
  \<^verbatim>\<open>load_state_dict\<close> reads the three keys in the order epoch, steps, global_loss.
  The first missing key raises; the model returns the exception and not the partly
  assigned object.
\<close>

definition load_state_dict ::
  "'v trainer_state \<Rightarrow> (string \<rightharpoonup> 'v) \<Rightarrow> py_error + 'v trainer_state" where
  "load_state_dict s d =
     (case getitem d ''epoch'' of
        Inl e \<Rightarrow> Inl e
      | Inr ep \<Rightarrow>
          (case getitem d ''steps'' of
             Inl e \<Rightarrow> Inl e
           | Inr sp \<Rightarrow>
               (case getitem d ''global_loss'' of
                  Inl e \<Rightarrow> Inl e
                | Inr gl \<Rightarrow> Inr (s\<lparr>epoch := ep, steps := sp, global_loss := gl\<rparr>))))"

section \<open>Strings, lists and numbers of the start-up code\<close>

text \<open>\<^verbatim>\<open>xs[-1]\<close>: the last element; an empty list raises \<^verbatim>\<open>IndexError\<close>.\<close>

definition py_last :: "'a list \<Rightarrow> py_error + 'a" where
  "py_last xs = (if xs = [] then Inl IndexError else Inr (last xs))"

text \<open>\<^verbatim>\<open>s.split(c)\<close> for a one-character separator: never an empty list.\<close>

fun split_on :: "char \<Rightarrow> string \<Rightarrow> string list" where
  "split_on c [] = [[]]"
| "split_on c (x # xs) =
     (if x = c then [] # split_on c xs
      else (case split_on c xs of
              [] \<Rightarrow> [[x]]
            | p # ps \<Rightarrow> (x # p) # ps))"

definition is_space :: "char \<Rightarrow> bool" where
  "is_space c \<longleftrightarrow>
     (let n = (of_char c :: nat) in (9 \<le> n \<and> n \<le> 13) \<or> (28 \<le> n \<and> n \<le> 32))"

definition is_digit :: "char \<Rightarrow> bool" where
  "is_digit c \<longleftrightarrow> (let n = (of_char c :: nat) in 48 \<le> n \<and> n \<le> 57)"

definition digit_val :: "char \<Rightarrow> int" where
  "digit_val c = int (of_char c) - 48"

definition strip :: "string \<Rightarrow> string" where
  "strip s = rev (dropWhile is_space (rev (dropWhile is_space s)))"

text \<open>
  \<^verbatim>\<open>int(s)\<close> on a string of ASCII characters without underscores (the string is a piece
  of a split at underscores): surrounding whitespace, an optional sign, one or more
  decimal digits. Anything else raises \<^verbatim>\<open>ValueError\<close>. The limit that recent Python
  versions put on the number of digits is not modelled.
\<close>

definition py_int :: "string \<Rightarrow> py_error + int" where
  "py_int s =
     (let t = strip s;
          neg = (t \<noteq> [] \<and> hd t = CHR ''-'');
          ds = (if t \<noteq> [] \<and> (hd t = CHR ''-'' \<or> hd t = CHR ''+'') then tl t else t)
      in if ds \<noteq> [] \<and> list_all is_digit ds
         then Inr ((if neg then uminus else id) (foldl (\<lambda>a c. 10 * a + digit_val c) 0 ds))
         else Inl ValueError)"

text \<open>\<^verbatim>\<open>range(a, b)\<close>: both ends must be ints.\<close>

definition py_range :: "pynum \<Rightarrow> int \<Rightarrow> py_error + int list" where
  "py_range a b = (case a of PInt i \<Rightarrow> Inr [i..b - 1] | PFloat x \<Rightarrow> Inl TypeError)"

section \<open>The collaborators of the Trainer\<close>

text \<open>
  What the model returns for a batch: a mapping (with the loss under \<^verbatim>\<open>"loss"\<close>) or a
  sequence (with the loss first). Each entry stands for the number that \<^verbatim>\<open>.item()\<close>
  reads from the tensor.
\<close>

datatype outputs = OutDict "string \<rightharpoonup> real" | OutSeq "real list"

text \<open>\<^verbatim>\<open>outputs["loss"] if isinstance(outputs, dict) else outputs[0]\<close>\<close>

definition output_loss :: "outputs \<Rightarrow> py_error + real" where
  "output_loss out =
     (case out of
        OutDict d \<Rightarrow> getitem d ''loss''
      | OutSeq xs \<Rightarrow> (case xs of [] \<Rightarrow> Inl IndexError | x # _ \<Rightarrow> Inr x))"

text \<open>
  The model, the optimizer, the scheduler and the accelerator are external. Their joint
  state is a value of type \<open>'m\<close>, and what they do to it is a parameter of the model:
  \<^item> \<open>listdir\<close> is \<^verbatim>\<open>os.listdir\<close>: the names in a directory, or the exception raised
    (\<open>FileNotFoundError\<close> when the directory does not exist);
  \<^item> \<open>load_state\<close> is \<^verbatim>\<open>accelerator.load_state\<close>: the exception raised (\<open>FileNotFoundError\<close>
    when a file of the checkpoint is missing), or the restored model state and the
    mapping saved for the registered \<^verbatim>\<open>TrainerState\<close>, which the accelerator passes to
    its \<^verbatim>\<open>load_state_dict\<close>;
  \<^item> \<open>forward\<close> is \<^verbatim>\<open>self.model(**batch)\<close>, \<open>backward\<close> is \<^verbatim>\<open>accelerator.backward(loss)\<close> for
    the loss of that batch, and the other three are \<^verbatim>\<open>optimizer.step()\<close>,
    \<^verbatim>\<open>scheduler.step()\<close> and \<^verbatim>\<open>optimizer.zero_grad()\<close>. These five are taken not to raise.
\<close>

record ('m, 'b) env =
  listdir :: "string \<Rightarrow> py_error + string list"
  load_state :: "string \<Rightarrow> py_error + ('m \<times> (string \<rightharpoonup> pynum))"
  forward :: "'m \<Rightarrow> 'b \<Rightarrow> outputs"
  backward :: "'m \<Rightarrow> 'b \<Rightarrow> 'm"
  optimizer_step :: "'m \<Rightarrow> 'm"
  scheduler_step :: "'m \<Rightarrow> 'm"
  zero_grad :: "'m \<Rightarrow> 'm"

text \<open>
  Modelled from the spec: \<^verbatim>\<open>accelerator.skip_first_batches\<close> is not in the source. The
  spec has it skip the first \<open>num_batches\<close> batches of the data loader: the batches that
  remain are those whose index is at least \<open>num_batches\<close>.
\<close>

definition skip_first_batches :: "'b list \<Rightarrow> pynum \<Rightarrow> 'b list" where
  "skip_first_batches ds num_batches = drop (nat \<lceil>py_real num_batches\<rceil>) ds"

section \<open>Trainer\<close>

datatype kwarg =
    KwInt int
  | KwStr string
  | KwBool bool
  | KwProjectConfiguration string bool

text \<open>
  The calls that leave the Trainer, in the order they are made. \<open>SaveState\<close> is
  \<^verbatim>\<open>accelerator.save_state()\<close>, the full resumable checkpoint of the accelerator;
  \<open>SavePretrained p\<close> is \<^verbatim>\<open>save_pretrained\<close> of the unwrapped model into \<open>p\<close>, the
  standalone export of the parameters. \<open>Print ep i l\<close> is the line printed for batch \<open>i\<close>
  of epoch \<open>ep\<close> with batch loss \<open>l\<close>. The text of a log line is not modelled.
\<close>

datatype 'b event =
    SetSeed int
  | MakeDirs string
  | DefaultSchedulerFactory
  | CreateAccelerator "string \<rightharpoonup> kwarg"
  | Prepare bool
  | RegisterForCheckpointing string
  | ModelTrain
  | ListDir string
  | LoadState string
  | SetIteration int
  | LogInfo
  | LogWarning
  | WaitForEveryone
  | SaveState
  | SavePretrained string
  | AtexitRegister
  | AtexitUnregister
  | SkipFirstBatches pynum
  | Forward 'b
  | Backward
  | OptimizerStep
  | SchedulerStep
  | ZeroGrad
  | Print int nat real

text \<open>
  The fields of the dataclass that the code reads. \<open>dataset\<close> is the list of batches that
  the data loader yields; \<open>scheduler\<close> says whether the caller gave a scheduler.
\<close>

record 'b trainer =
  dataset :: "'b list"
  scheduler :: bool
  use_scheduler :: bool
  grad_accum :: int
  accelerator_kwargs :: "string \<rightharpoonup> kwarg"
  output_dir :: string
  checkpoint_every :: int
  load_checkpoint :: bool
  seed :: "int option"

text \<open>What a run changes: the TrainerState, the state of the collaborators, the calls made.\<close>

record ('m, 'b) world =
  state :: "pynum trainer_state"
  mstate :: 'm
  trace :: "'b event list"

definition emit :: "'b event list \<Rightarrow> ('m, 'b) world \<Rightarrow> ('m, 'b) world" where
  "emit es w = w\<lparr>trace := trace w @ es\<rparr>"

text \<open>
  \<^verbatim>\<open>__post_init__\<close>. \<^verbatim>\<open>if self.seed:\<close> tests the truth value of the seed: \<^verbatim>\<open>None\<close> and
  \<^verbatim>\<open>0\<close> are both false. The caller's accelerator arguments override the three that
  the Trainer sets. Afterwards \<^verbatim>\<open>self.scheduler\<close> is set whenever \<open>use_scheduler\<close> holds.
  The calls made here (creating the directory, building the accelerator, preparing the
  objects) are taken not to raise.
\<close>

definition post_init :: "'b trainer \<Rightarrow> 'm \<Rightarrow> ('m, 'b) world" where
  "post_init self m =
     (let seeding = (case seed self of
                       None \<Rightarrow> []
                     | Some s \<Rightarrow> if s \<noteq> 0 then [SetSeed s] else []);
          default_scheduler =
            (if use_scheduler self \<and> \<not> scheduler self then [DefaultSchedulerFactory] else []);
          acc_kwargs =
            [''gradient_accumulation_steps'' \<mapsto> KwInt (grad_accum self),
             ''project_dir'' \<mapsto> KwStr (output_dir self),
             ''project_config'' \<mapsto> KwProjectConfiguration (output_dir self) True]
            ++ accelerator_kwargs self;
          prepare =
            (if use_scheduler self
             then [Prepare True, RegisterForCheckpointing ''scheduler'']
             else [Prepare False])
      in \<lparr>state = TrainerState,
          mstate = m,
          trace = seeding @ [MakeDirs (output_dir self)] @ default_scheduler
                    @ [CreateAccelerator acc_kwargs] @ prepare
                    @ [RegisterForCheckpointing ''state'']\<rparr>)"

text \<open>\<^verbatim>\<open>_save_dist\<close>: the standalone export of the unwrapped model's parameters.\<close>

definition save_dist :: "'b trainer \<Rightarrow> ('m, 'b) world \<Rightarrow> ('m, 'b) world" where
  "save_dist self w = emit [SavePretrained (output_dir self @ ''/dist'')] w"

text \<open>
  \<^verbatim>\<open>_save(no_dist)\<close>: the barrier, the accelerator's checkpoint, and the standalone export
  unless \<open>no_dist\<close> is set. The three calls are taken not to raise.
\<close>

definition save :: "'b trainer \<Rightarrow> bool \<Rightarrow> ('m, 'b) world \<Rightarrow> ('m, 'b) world" where
  "save self no_dist w =
     (let w1 = emit [WaitForEveryone, SaveState] w
      in if \<not> no_dist then save_dist self w1 else w1)"

text \<open>
  The \<^verbatim>\<open>except FileNotFoundError\<close> clause around the resume: that exception is logged
  twice as a warning and followed by \<^verbatim>\<open>_save(no_dist=True)\<close>; any other one propagates.
\<close>

definition resume_failed ::
  "'b trainer \<Rightarrow> py_error \<Rightarrow> ('m, 'b) world \<Rightarrow> py_error + ('m, 'b) world" where
  "resume_failed self e w =
     (if e = FileNotFoundError then Inr (save self True (emit [LogWarning, LogWarning] w))
      else Inl e)"

text \<open>
  The start of \<^verbatim>\<open>_train_accelerate\<close>, up to the registration of the exit hook. A failed
  \<open>load_state\<close> is taken to leave the TrainerState and the collaborators as they were.
\<close>

definition startup ::
  "'b trainer \<Rightarrow> ('m, 'b) env \<Rightarrow> ('m, 'b) world \<Rightarrow> py_error + ('m, 'b) world" where
  "startup self env w =
     (let w0 = emit [ModelTrain] w in
      if load_checkpoint self then
        (let dir = output_dir self @ ''/checkpoints/'';
             w1 = emit [ListDir dir] w0
         in case listdir env dir of
              Inl e \<Rightarrow> resume_failed self e w1
            | Inr names \<Rightarrow>
                (case py_last (sort names) of
                   Inl e \<Rightarrow> resume_failed self e w1
                 | Inr last_cp \<Rightarrow>
                     (let path = output_dir self @ ''/checkpoints/'' @ last_cp;
                          w2 = emit [LogInfo, LoadState path] w1
                      in case load_state env path of
                           Inl e \<Rightarrow> resume_failed self e w2
                         | Inr (m, d) \<Rightarrow>
                             (case load_state_dict (state w2) d of
                                Inl e \<Rightarrow> resume_failed self e w2
                              | Inr st \<Rightarrow>
                                  (let w3 = w2\<lparr>state := st, mstate := m\<rparr>
                                   in case py_last (split_on CHR ''_'' last_cp) of
                                        Inl e \<Rightarrow> resume_failed self e w3
                                      | Inr last_cp_num \<Rightarrow>
                                          (case py_int last_cp_num of
                                             Inl e \<Rightarrow> resume_failed self e w3
                                           | Inr n \<Rightarrow>
                                               Inr (emit [SetIteration (n + 1), LogInfo] w3)))))))
      else Inr (save self True w0))"

text \<open>
  One pass through the body of the batch loop, up to and including
  \<^verbatim>\<open>self.state.steps += 1\<close>.
\<close>

definition batch_step ::
  "'b trainer \<Rightarrow> ('m, 'b) env \<Rightarrow> int \<Rightarrow> nat \<Rightarrow> 'b \<Rightarrow> ('m, 'b) world
     \<Rightarrow> py_error + ('m, 'b) world" where
  "batch_step self env ep batch_idx batch w =
     (case output_loss (forward env (mstate w) batch) of
        Inl e \<Rightarrow> Inl e
      | Inr loss \<Rightarrow>
          (let m1 = backward env (mstate w) batch;
               m2 = optimizer_step env m1;
               m3 = (if use_scheduler self then scheduler_step env m2 else m2);
               m4 = zero_grad env m3
           in if grad_accum self = 0 then Inl ZeroDivisionError
              else
                (let batch_loss = loss / of_int (grad_accum self);
                     st = state w
                 in Inr (w\<lparr>state := st\<lparr>global_loss := py_add (global_loss st) (PFloat batch_loss),
                                        steps := py_add (steps st) (PInt 1)\<rparr>,
                           mstate := m4,
                           trace := trace w @ [Forward batch, Backward, OptimizerStep]
                                      @ (if use_scheduler self then [SchedulerStep] else [])
                                      @ [ZeroGrad, Print ep batch_idx batch_loss]\<rparr>))))"

text \<open>
  \<^verbatim>\<open>for batch_idx, batch in enumerate(dataset)\<close>, from index \<open>batch_idx\<close> on. After the
  body: the break on \<open>max_steps\<close>, then the cadence test, whose \<^verbatim>\<open>%\<close> raises on a zero
  \<open>checkpoint_every\<close>.
\<close>

fun batch_loop ::
  "'b trainer \<Rightarrow> ('m, 'b) env \<Rightarrow> int option \<Rightarrow> int \<Rightarrow> nat \<Rightarrow> 'b list \<Rightarrow> ('m, 'b) world
     \<Rightarrow> py_error + ('m, 'b) world" where
  "batch_loop self env max_steps ep batch_idx [] w = Inr w"
| "batch_loop self env max_steps ep batch_idx (batch # rest) w =
     (case batch_step self env ep batch_idx batch w of
        Inl e \<Rightarrow> Inl e
      | Inr w1 \<Rightarrow>
          if (case max_steps of None \<Rightarrow> False | Some k \<Rightarrow> int batch_idx \<ge> k) then Inr w1
          else if checkpoint_every self = 0 then Inl ZeroDivisionError
          else batch_loop self env max_steps ep (Suc batch_idx) rest
                 (if int batch_idx mod checkpoint_every self = 0 then save self False w1
                  else w1))"

text \<open>The body of the epoch loop: the skip, the batch loop, \<^verbatim>\<open>self.state.epoch += 1\<close>.\<close>

definition run_epoch ::
  "'b trainer \<Rightarrow> ('m, 'b) env \<Rightarrow> int option \<Rightarrow> int \<Rightarrow> ('m, 'b) world
     \<Rightarrow> py_error + ('m, 'b) world" where
  "run_epoch self env max_steps ep w =
     (let n = steps (state w);
          skipping = (py_real n > 0);
          ds = (if skipping then skip_first_batches (dataset self) n else dataset self);
          w0 = (if skipping then emit [SkipFirstBatches n] w else w)
      in case batch_loop self env max_steps ep 0 ds w0 of
           Inl e \<Rightarrow> Inl e
         | Inr w1 \<Rightarrow>
             Inr (w1\<lparr>state := (state w1)\<lparr>epoch := py_add (epoch (state w1)) (PInt 1)\<rparr>\<rparr>))"

text \<open>\<^verbatim>\<open>for ep in range(self.state.epoch, epochs)\<close>, over the epochs still to run.\<close>

fun epoch_loop ::
  "'b trainer \<Rightarrow> ('m, 'b) env \<Rightarrow> int option \<Rightarrow> int list \<Rightarrow> ('m, 'b) world
     \<Rightarrow> py_error + ('m, 'b) world" where
  "epoch_loop self env max_steps [] w = Inr w"
| "epoch_loop self env max_steps (ep # eps) w =
     (case run_epoch self env max_steps ep w of
        Inl e \<Rightarrow> Inl e
      | Inr w1 \<Rightarrow> epoch_loop self env max_steps eps w1)"

text \<open>
  The end of \<^verbatim>\<open>_train_accelerate\<close>: the exit hook is removed, a last \<^verbatim>\<open>_save()\<close>, and the
  value returned.
\<close>

definition finish ::
  "'b trainer \<Rightarrow> ('m, 'b) world \<Rightarrow> py_error + (pynum \<times> ('m, 'b) world)" where
  "finish self w =
     (let w1 = save self False (emit [AtexitUnregister] w)
      in case py_truediv (global_loss (state w1)) (steps (state w1)) of
           Inl e \<Rightarrow> Inl e
         | Inr r \<Rightarrow> Inr (r, w1))"

text \<open>
  Start-up and both loops, up to the end of the epoch loop. The range of the epoch loop
  is computed once, when the loop is entered.
\<close>

definition run_loops ::
  "'b trainer \<Rightarrow> ('m, 'b) env \<Rightarrow> int \<Rightarrow> int option \<Rightarrow> ('m, 'b) world
     \<Rightarrow> py_error + ('m, 'b) world" where
  "run_loops self env epochs max_steps w =
     (case startup self env w of
        Inl e \<Rightarrow> Inl e
      | Inr w1 \<Rightarrow>
          (let w2 = emit [AtexitRegister] w1
           in case py_range (epoch (state w2)) epochs of
                Inl e \<Rightarrow> Inl e
              | Inr eps \<Rightarrow> epoch_loop self env max_steps eps w2))"

definition train_accelerate ::
  "'b trainer \<Rightarrow> ('m, 'b) env \<Rightarrow> int \<Rightarrow> int option \<Rightarrow> ('m, 'b) world
     \<Rightarrow> py_error + (pynum \<times> ('m, 'b) world)" where
  "train_accelerate self env epochs max_steps w =
     (case run_loops self env epochs max_steps w of
        Inl e \<Rightarrow> Inl e
      | Inr w1 \<Rightarrow> finish self w1)"

text \<open>\<^verbatim>\<open>train\<close>: six log lines, a seventh when \<open>max_steps\<close> is true, then the run.\<close>

definition train_log :: "int option \<Rightarrow> 'b event list" where
  "train_log max_steps =
     [LogInfo, LogInfo, LogInfo]
     @ (case max_steps of None \<Rightarrow> [] | Some k \<Rightarrow> if k \<noteq> 0 then [LogInfo] else [])
     @ [LogInfo, LogInfo, LogInfo]"

definition train ::
  "'b trainer \<Rightarrow> ('m, 'b) env \<Rightarrow> int \<Rightarrow> int option \<Rightarrow> ('m, 'b) world
     \<Rightarrow> py_error + (pynum \<times> ('m, 'b) world)" where
  "train self env epochs max_steps w =
     train_accelerate self env epochs max_steps (emit (train_log max_steps) w)"

section \<open>Observing a run\<close>

text \<open>
  The events that the properties below look at: the batches given to the model, the
  accelerator's checkpoints and the standalone exports. A full checkpoint (\<^verbatim>\<open>_save()\<close>)
  shows as \<open>SaveState\<close> followed by \<open>SavePretrained\<close> of the dist directory.
\<close>

fun observed :: "'b event \<Rightarrow> bool" where
  "observed (Forward b) = True"
| "observed SaveState = True"
| "observed (SavePretrained p) = True"
| "observed e = False"

fun is_forward :: "'b event \<Rightarrow> bool" where
  "is_forward (Forward b) = True"
| "is_forward e = False"

definition forward_count :: "'b event list \<Rightarrow> nat" where
  "forward_count es = length (filter is_forward es)"

definition full_checkpoint :: "'b trainer \<Rightarrow> 'b event list" where
  "full_checkpoint self = [SaveState, SavePretrained (output_dir self @ ''/dist'')]"

text \<open>What is observed of batch \<open>i\<close> when the cadence test follows its body.\<close>

definition batch_events :: "'b trainer \<Rightarrow> nat \<times> 'b \<Rightarrow> 'b event list" where
  "batch_events self ib =
     Forward (snd ib)
       # (if int (fst ib) mod checkpoint_every self = 0 then full_checkpoint self else [])"

text \<open>The model's outputs hold a loss where the Trainer looks for it.\<close>

definition has_loss :: "outputs \<Rightarrow> bool" where
  "has_loss out = (case output_loss out of Inl e \<Rightarrow> False | Inr l \<Rightarrow> True)"

section \<open>Example inputs\<close>

text \<open>
  A model whose loss on a batch is the batch itself (a number), with a state that counts
  the optimizer steps; no checkpoints directory.
\<close>

definition ex_env :: "(nat, real) env" where
  "ex_env =
     \<lparr>listdir = (\<lambda>p. Inl FileNotFoundError),
      load_state = (\<lambda>p. Inl FileNotFoundError),
      forward = (\<lambda>m b. OutSeq [b]),
      backward = (\<lambda>m b. m),
      optimizer_step = Suc,
      scheduler_step = id,
      zero_grad = id\<rparr>"

text \<open>Three batches, no scheduler, a checkpoint every second batch, no resume.\<close>

definition ex_trainer :: "real trainer" where
  "ex_trainer =
     \<lparr>dataset = [1, 2, 3],
      scheduler = False,
      use_scheduler = False,
      grad_accum = 1,
      accelerator_kwargs = Map.empty,
      output_dir = ''./output'',
      checkpoint_every = 2,
      load_checkpoint = False,
      seed = None\<rparr>"

text \<open>The Trainer right after construction, without the calls made by the construction.\<close>

definition ex_world :: "(nat, real) world" where
  "ex_world = \<lparr>state = TrainerState, mstate = 0, trace = []\<rparr>"

text \<open>The same Trainer asked to resume from the latest checkpoint.\<close>

definition ex_resume :: "real trainer" where
  "ex_resume = ex_trainer\<lparr>load_checkpoint := True\<rparr>"

text \<open>A checkpoints directory that exists and is empty.\<close>

definition ex_env_empty_dir :: "(nat, real) env" where
  "ex_env_empty_dir = ex_env\<lparr>listdir := (\<lambda>p. Inr [])\<rparr>"

text \<open>
  Where \<open>train ex_trainer ex_env 1 None ex_world\<close> stands when the epoch loop is left.
\<close>

definition ex_done :: "(nat, real) world" where
  "ex_done =
     \<lparr>state = \<lparr>epoch = PInt 1, steps = PInt 3, global_loss = PFloat 6\<rparr>,
      mstate = 3,
      trace =
        [LogInfo, LogInfo, LogInfo, LogInfo, LogInfo, LogInfo,
         ModelTrain, WaitForEveryone, SaveState, AtexitRegister,
         Forward 1, Backward, OptimizerStep, ZeroGrad, Print 0 0 1,
         WaitForEveryone, SaveState, SavePretrained ''./output/dist'',
         Forward 2, Backward, OptimizerStep, ZeroGrad, Print 0 1 2,
         Forward 3, Backward, OptimizerStep, ZeroGrad, Print 0 2 3,
         WaitForEveryone, SaveState, SavePretrained ''./output/dist'']\<rparr>"

text \<open>A Trainer whose data loader yields no batch, and where its run stands after the loops.\<close>

definition ex_no_batches :: "real trainer" where
  "ex_no_batches = ex_trainer\<lparr>dataset := []\<rparr>"

definition ex_idle :: "(nat, real) world" where
  "ex_idle =
     \<lparr>state = \<lparr>epoch = PInt 1, steps = PInt 0, global_loss = PInt 0\<rparr>,
      mstate = 0,
      trace =
        [LogInfo, LogInfo, LogInfo, LogInfo, LogInfo, LogInfo,
         ModelTrain, WaitForEveryone, SaveState, AtexitRegister]\<rparr>"

section \<open>Arithmetic of the checkpoint cadence\<close>

text \<open>\<open>B\<close> divided by \<open>n\<close>, rounded up.\<close>

definition ceil_div :: "nat \<Rightarrow> nat \<Rightarrow> nat" where
  "ceil_div B n = (if B mod n = 0 then B div n else Suc (B div n))"

lemma ceil_div_Suc:
  assumes "0 < n"
  shows "ceil_div (Suc B) n = (if B mod n = 0 then Suc (ceil_div B n) else ceil_div B n)"
  using assms by (auto simp: ceil_div_def mod_Suc div_Suc)

lemma multiples_upto:
  assumes "0 < n"
  shows "[i \<leftarrow> [0..<B]. i mod n = 0] = map (\<lambda>k. k * n) [0..<ceil_div B n]"
proof (induction B)
  case 0
  then show ?case by (simp add: ceil_div_def)
next
  case (Suc B)
  show ?case
  proof (cases "B mod n = 0")
    case True
    then have "ceil_div B n * n = B"
      using div_mult_mod_eq[of B n] by (simp add: ceil_div_def)
    with Suc True show ?thesis by (simp add: ceil_div_Suc[OF assms])
  next
    case False
    with Suc show ?thesis by (simp add: ceil_div_Suc[OF assms])
  qed
qed

lemma ceiling_nat_div:
  assumes "0 < N"
  shows "nat \<lceil>real B / real_of_int N\<rceil> = ceil_div B (nat N)"
proof -
  have "\<lceil>real B / real_of_int N\<rceil> = - (- int B div N)"
    using ceiling_divide_eq_div[of "int B" N, where ?'a = real] by simp
  also have "\<dots> = (if int B mod N = 0 then int B div N else int B div N + 1)"
    using assms by (simp add: zdiv_zminus1_eq_if)
  finally have "nat \<lceil>real B / real_of_int N\<rceil> =
      (if int B mod N = 0 then nat (int B div N) else nat (int B div N + 1))"
    by simp
  moreover have "int B mod N = 0 \<longleftrightarrow> B mod nat N = 0"
    using assms by (metis int_nat_eq less_le_not_le of_nat_0 of_nat_eq_iff zmod_int)
  moreover have "nat (int B div N) = B div nat N"
    using assms by (metis int_nat_eq less_le_not_le nat_int zdiv_int)
  moreover have "nat (int B div N + 1) = Suc (B div nat N)"
    using assms by (metis Suc_eq_plus1 calculation(3) nat_add_distrib pos_imp_zdiv_nonneg_iff of_nat_0_le_iff nat_one_as_int zero_le_one nat_1)
  ultimately show ?thesis by (simp add: ceil_div_def)
qed

lemma cadence_indices:
  assumes "0 < N"
  shows "[i \<leftarrow> [0..<B]. int i mod N = 0] =
           map (\<lambda>k. k * nat N) [0..<nat \<lceil>real B / real_of_int N\<rceil>]"
proof -
  have "int i mod N = 0 \<longleftrightarrow> i mod nat N = 0" for i
    using assms by (metis int_nat_eq less_le_not_le of_nat_0 of_nat_eq_iff zmod_int)
  then have "[i \<leftarrow> [0..<B]. int i mod N = 0] = [i \<leftarrow> [0..<B]. i mod nat N = 0]"
    by simp
  also have "\<dots> = map (\<lambda>k. k * nat N) [0..<ceil_div B (nat N)]"
    using assms by (simp add: multiples_upto)
  finally show ?thesis
    using assms by (simp add: ceiling_nat_div)
qed

section \<open>Facts about the pieces of a run\<close>

lemma getitem_state_dict:
  "getitem (state_dict s) ''epoch'' = Inr (epoch s)"
  "getitem (state_dict s) ''steps'' = Inr (steps s)"
  "getitem (state_dict s) ''global_loss'' = Inr (global_loss s)"
  by (simp_all add: getitem_def state_dict_def)

lemma load_state_dict_KeyError_iff:
  "load_state_dict t d = Inl KeyError \<longleftrightarrow>
     d ''epoch'' = None \<or> d ''steps'' = None \<or> d ''global_loss'' = None"
  by (auto simp: load_state_dict_def getitem_def split: option.splits)

text \<open>A Trainer is constructed with a fresh TrainerState: epoch 0, step 0, loss 0.\<close>

lemma post_init_state:
  "state (post_init self m) = \<lparr>epoch = PInt 0, steps = PInt 0, global_loss = PInt 0\<rparr>"
  by (simp add: post_init_def TrainerState_def Let_def)

text \<open>A pass through the body of the batch loop that does not raise.\<close>

lemma batch_step_Inr:
  assumes "batch_step self env ep i b w = Inr w'"
  shows "filter observed (trace w') = filter observed (trace w) @ [Forward b]"
    and "steps (state w') = py_add (steps (state w)) (PInt 1)"
    and "epoch (state w') = epoch (state w)"
    and "forward_count (trace w') = Suc (forward_count (trace w))"
  using assms
  by (auto simp: batch_step_def Let_def forward_count_def split: sum.splits if_splits)

lemma batch_step_total:
  assumes "has_loss (forward env (mstate w) b)" and "grad_accum self \<noteq> 0"
  shows "\<exists>w'. batch_step self env ep i b w = Inr w'"
  using assms
  by (auto simp: batch_step_def Let_def has_loss_def split: sum.splits)

lemma save_observed:
  "filter observed (trace (save self False w)) = filter observed (trace w) @ full_checkpoint self"
  "filter observed (trace (save self True w)) = filter observed (trace w) @ [SaveState]"
  "state (save self nd w) = state w"
  "mstate (save self nd w) = mstate w"
  "forward_count (trace (save self nd w)) = forward_count (trace w)"
  by (simp_all add: save_def save_dist_def emit_def full_checkpoint_def Let_def forward_count_def)

text \<open>
  The batch loop without \<open>max_steps\<close>: when the outputs hold a loss and neither
  \<open>grad_accum\<close> nor \<open>checkpoint_every\<close> is zero, it runs through all the batches.
\<close>

lemma batch_loop_None:
  assumes ok: "\<forall>m b. has_loss (forward env m b)"
    and ga: "grad_accum self \<noteq> 0"
    and ce: "checkpoint_every self \<noteq> 0"
  shows "\<exists>w'. batch_loop self env None ep i ds w = Inr w' \<and>
           filter observed (trace w') =
             filter observed (trace w) @ concat (map (batch_events self) (enumerate i ds)) \<and>
           epoch (state w') = epoch (state w) \<and>
           (\<forall>s. steps (state w) = PInt s \<longrightarrow> steps (state w') = PInt (s + int (length ds)))"
proof (induction ds arbitrary: i w)
  case Nil
  then show ?case by simp
next
  case (Cons b ds)
  from batch_step_total[OF _ ga] ok obtain w1 where
    w1: "batch_step self env ep i b w = Inr w1" by blast
  let ?w2 = "if int i mod checkpoint_every self = 0 then save self False w1 else w1"
  from Cons.IH[of "Suc i" ?w2] obtain w' where
    w': "batch_loop self env None ep (Suc i) ds ?w2 = Inr w'"
    "filter observed (trace w') =
       filter observed (trace ?w2) @ concat (map (batch_events self) (enumerate (Suc i) ds))"
    "epoch (state w') = epoch (state ?w2)"
    "\<forall>s. steps (state ?w2) = PInt s \<longrightarrow> steps (state w') = PInt (s + int (length ds))"
    by blast
  have tr: "filter observed (trace ?w2) = filter observed (trace w) @ batch_events self (i, b)"
    using batch_step_Inr(1)[OF w1] by (simp add: save_observed batch_events_def)
  have ep: "epoch (state ?w2) = epoch (state w)"
    using batch_step_Inr(3)[OF w1] by (simp add: save_observed)
  have st: "steps (state ?w2) = py_add (steps (state w)) (PInt 1)"
    using batch_step_Inr(2)[OF w1] by (simp add: save_observed)
  have "batch_loop self env None ep i (b # ds) w = Inr w'"
    using w1 w'(1) ce by simp
  moreover have "filter observed (trace w') =
      filter observed (trace w) @ concat (map (batch_events self) (enumerate i (b # ds)))"
    using w'(2) tr by simp
  moreover have "epoch (state w') = epoch (state w)"
    using w'(3) ep by simp
  moreover have "\<forall>s. steps (state w) = PInt s \<longrightarrow>
      steps (state w') = PInt (s + int (length (b # ds)))"
    using w'(4) st by simp
  ultimately show ?case by blast
qed

text \<open>
  The batch loop with \<open>max_steps = K\<close>, entered at index \<open>i\<close> with more than \<open>K - i\<close>
  batches ahead: it is the loop without the bound over the batches before index
  \<open>max K i\<close>, followed by the body for the batch at that index and by nothing else.
\<close>

lemma batch_loop_max_steps:
  assumes "nat (K - int i) < length ds"
  shows "batch_loop self env (Some K) ep i ds w =
     (case batch_loop self env None ep i (take (nat (K - int i)) ds) w of
        Inl e \<Rightarrow> Inl e
      | Inr w' \<Rightarrow> batch_step self env ep (i + nat (K - int i)) (ds ! nat (K - int i)) w')"
  using assms
proof (induction ds arbitrary: i w)
  case Nil
  then show ?case by simp
next
  case (Cons b ds)
  show ?case
  proof (cases "K \<le> int i")
    case True
    then show ?thesis by (simp split: sum.splits)
  next
    case False
    then have j: "nat (K - int i) = Suc (nat (K - int (Suc i)))" by simp
    with Cons.prems have "nat (K - int (Suc i)) < length ds" by simp
    from Cons.IH[OF this] False show ?thesis
      unfolding j by (simp split: sum.splits)
  qed
qed

text \<open>
  The step counter and the batches given to the model grow together, through the batch
  loop, an epoch and the epoch loop, whatever \<open>max_steps\<close> is.
\<close>

lemma batch_loop_counts:
  assumes "batch_loop self env ms ep i ds w = Inr w'"
    and "steps (state w) = PInt (c + int (forward_count (trace w)))"
  shows "steps (state w') = PInt (c + int (forward_count (trace w')))"
  using assms
proof (induction ds arbitrary: i w)
  case Nil
  then show ?case by simp
next
  case (Cons b ds)
  from Cons.prems(1) obtain w1 where w1: "batch_step self env ep i b w = Inr w1"
    by (auto split: sum.splits)
  have inv1: "steps (state w1) = PInt (c + int (forward_count (trace w1)))"
    using batch_step_Inr(2,4)[OF w1] Cons.prems(2) by simp
  show ?case
  proof (cases "case ms of None \<Rightarrow> False | Some k \<Rightarrow> k \<le> int i")
    case True
    with Cons.prems(1) w1 have "w' = w1" by simp
    with inv1 show ?thesis by simp
  next
    case False
    let ?w2 = "if int i mod checkpoint_every self = 0 then save self False w1 else w1"
    from False Cons.prems(1) w1 have
      "batch_loop self env ms ep (Suc i) ds ?w2 = Inr w'"
      by (simp split: if_splits)
    moreover have "steps (state ?w2) = PInt (c + int (forward_count (trace ?w2)))"
      using inv1 by (simp add: save_observed)
    ultimately show ?thesis by (rule Cons.IH)
  qed
qed

lemma run_epoch_counts:
  assumes "run_epoch self env ms ep w = Inr w'"
    and "steps (state w) = PInt (c + int (forward_count (trace w)))"
  shows "steps (state w') = PInt (c + int (forward_count (trace w')))"
proof -
  let ?n = "steps (state w)"
  let ?ds = "if py_real ?n > 0 then skip_first_batches (dataset self) ?n else dataset self"
  let ?w0 = "if py_real ?n > 0 then emit [SkipFirstBatches ?n] w else w"
  from assms(1) obtain w1 where
    w1: "batch_loop self env ms ep 0 ?ds ?w0 = Inr w1"
    and w': "w' = w1\<lparr>state := (state w1)\<lparr>epoch := py_add (epoch (state w1)) (PInt 1)\<rparr>\<rparr>"
    by (auto simp: run_epoch_def Let_def split: sum.splits)
  have "steps (state ?w0) = PInt (c + int (forward_count (trace ?w0)))"
    using assms(2) by (simp add: emit_def forward_count_def)
  from batch_loop_counts[OF w1 this] w' show ?thesis by simp
qed

lemma epoch_loop_counts:
  assumes "epoch_loop self env ms eps w = Inr w'"
    and "steps (state w) = PInt (c + int (forward_count (trace w)))"
  shows "steps (state w') = PInt (c + int (forward_count (trace w')))"
  using assms
proof (induction eps arbitrary: w)
  case Nil
  then show ?case by simp
next
  case (Cons ep eps)
  from Cons.prems(1) obtain w1 where
    w1: "run_epoch self env ms ep w = Inr w1" and rest: "epoch_loop self env ms eps w1 = Inr w'"
    by (auto split: sum.splits)
  from Cons.IH[OF rest run_epoch_counts[OF w1 Cons.prems(2)]] show ?case .
qed

text \<open>Without a resume, the start-up is the model's training mode and one save.\<close>

lemma startup_no_resume:
  assumes "\<not> load_checkpoint self"
  shows "startup self env w = Inr (w\<lparr>trace := trace w @ [ModelTrain, WaitForEveryone, SaveState]\<rparr>)"
  using assms by (simp add: startup_def save_def emit_def Let_def)

lemma run_loops_no_resume:
  assumes "\<not> load_checkpoint self" and "epoch (state w) = PInt e"
  shows "run_loops self env epochs ms w =
           epoch_loop self env ms [e..epochs - 1]
             (w\<lparr>trace := trace w @ [ModelTrain, WaitForEveryone, SaveState, AtexitRegister]\<rparr>)"
  using assms by (simp add: run_loops_def startup_no_resume emit_def py_range_def Let_def)

lemma finish_eq:
  "finish self w =
     (if py_real (steps (state w)) = 0 then Inl ZeroDivisionError
      else Inr (PFloat (py_real (global_loss (state w)) / py_real (steps (state w))),
                save self False (emit [AtexitUnregister] w)))"
  by (simp add: finish_def py_truediv_def save_observed emit_def Let_def)

lemma count_SaveState_batch_events:
  "length (filter (\<lambda>e. e = SaveState) (concat (map (batch_events self) (enumerate i ds)))) =
     length [j \<leftarrow> [i..<i + length ds]. int j mod checkpoint_every self = 0]"
proof (induction ds arbitrary: i)
  case Nil
  then show ?case by simp
next
  case (Cons b ds)
  have "[i..<i + length (b # ds)] = i # [Suc i..<Suc i + length ds]"
    by (simp add: upt_rec)
  with Cons[of "Suc i"] show ?case
    by (simp add: batch_events_def full_checkpoint_def)
qed

section \<open>The start-up save\<close>

text \<open>
  Claim C1. When the Trainer runs with \<open>load_checkpoint\<close> disabled, the save made at
  start-up, before the epoch loop, is \<^verbatim>\<open>_save(no_dist=True)\<close>: the barrier and the
  accelerator's full resumable checkpoint, without the standalone export of the
  parameters to the dist directory. Nothing else happens at start-up but putting the
  model into training mode, and the TrainerState is left as it was.
\<close>

theorem startup_save_without_resume:
  assumes "\<not> load_checkpoint self"
  shows "startup self env w =
           Inr (w\<lparr>trace := trace w @ [ModelTrain, WaitForEveryone, SaveState]\<rparr>)"
  using assms by (rule startup_no_resume)

theorem startup_save_without_resume_witness:
  "\<not> load_checkpoint ex_trainer
   \<and> startup ex_trainer ex_env ex_world =
       Inr \<lparr>state = \<lparr>epoch = PInt 0, steps = PInt 0, global_loss = PInt 0\<rparr>, mstate = 0,
            trace = [ModelTrain, WaitForEveryone, SaveState]\<rparr>"
proof -
  have h: "\<not> load_checkpoint ex_trainer" by (simp add: ex_trainer_def)
  from startup_save_without_resume[OF h, of ex_env ex_world] h show ?thesis
    by (simp add: ex_world_def TrainerState_def)
qed

text \<open>
  For C1 as the specification words it (the start-up save is only the standalone
  export, \<^verbatim>\<open>_save_dist\<close>, and not a checkpoint of the accelerator): on the example
  Trainer the start-up makes the accelerator's checkpoint and no export, which is not
  what \<open>save_dist\<close> alone would have done.
\<close>

theorem startup_save_counterexample:
  "\<not> load_checkpoint ex_trainer
   \<and> startup ex_trainer ex_env ex_world =
       Inr (ex_world\<lparr>trace := [ModelTrain, WaitForEveryone, SaveState]\<rparr>)
   \<and> startup ex_trainer ex_env ex_world \<noteq> Inr (save_dist ex_trainer (emit [ModelTrain] ex_world))"
  by (simp add: startup_def save_def save_dist_def emit_def Let_def ex_trainer_def ex_world_def)

section \<open>The checkpoint cadence\<close>

text \<open>
  Claim C2. A Trainer with a fresh TrainerState, no resume, a cadence
  \<open>checkpoint_every = N > 0\<close> and a model that yields a loss runs one epoch over its
  \<open>B\<close> batches without \<open>max_steps\<close>. Start-up and loops complete, and what is observed
  is: the one save before the loop, then each batch in turn, batch \<open>i\<close> being followed
  by a full checkpoint exactly when \<open>i mod N = 0\<close>. The full checkpoints inside the
  batch loop number \<open>\<lceil>B / N\<rceil>\<close>, and the indices at which they occur are
  \<open>0, N, 2N, \<dots>\<close>.
\<close>

theorem checkpoint_cadence:
  assumes "0 < N" and "checkpoint_every self = N" and "grad_accum self \<noteq> 0"
    and "\<not> load_checkpoint self" and "state w = TrainerState"
    and "\<forall>m b. has_loss (forward env m b)"
    and "B = length (dataset self)"
  shows "\<exists>w'. run_loops self env 1 None w = Inr w' \<and>
           filter observed (trace w') =
             filter observed (trace w) @ [SaveState]
               @ concat (map (batch_events self) (enumerate 0 (dataset self))) \<and>
           length (filter (\<lambda>e. e = SaveState)
                     (concat (map (batch_events self) (enumerate 0 (dataset self)))))
             = nat \<lceil>real B / real_of_int N\<rceil> \<and>
           [i \<leftarrow> [0..<B]. int i mod N = 0] =
             map (\<lambda>k. k * nat N) [0..<nat \<lceil>real B / real_of_int N\<rceil>]"
proof -
  let ?w1 = "w\<lparr>trace := trace w @ [ModelTrain, WaitForEveryone, SaveState, AtexitRegister]\<rparr>"
  have st: "state ?w1 = TrainerState" using assms(5) by simp
  have ce: "checkpoint_every self \<noteq> 0" using assms(1,2) by simp
  from batch_loop_None[OF assms(6) assms(3) ce, of 0 0 "dataset self" ?w1]
  obtain w2 where
    w2: "batch_loop self env None 0 0 (dataset self) ?w1 = Inr w2"
    and tr: "filter observed (trace w2) =
       filter observed (trace ?w1) @ concat (map (batch_events self) (enumerate 0 (dataset self)))"
    by blast
  let ?w' = "w2\<lparr>state := (state w2)\<lparr>epoch := py_add (epoch (state w2)) (PInt 1)\<rparr>\<rparr>"
  have "run_epoch self env None 0 ?w1 = Inr ?w'"
    using w2 st by (simp add: run_epoch_def TrainerState_def Let_def)
  moreover have "run_loops self env 1 None w = epoch_loop self env None [0..1 - 1] ?w1"
    using assms(4,5) by (intro run_loops_no_resume) (simp_all add: TrainerState_def)
  ultimately have run: "run_loops self env 1 None w = Inr ?w'"
    by (simp add: upto.simps)
  have obs: "filter observed (trace ?w') =
      filter observed (trace w) @ [SaveState]
        @ concat (map (batch_events self) (enumerate 0 (dataset self)))"
    using tr by simp
  have idx: "[i \<leftarrow> [0..<B]. int i mod N = 0] =
      map (\<lambda>k. k * nat N) [0..<nat \<lceil>real B / real_of_int N\<rceil>]"
    by (rule cadence_indices[OF assms(1)])
  have "length (filter (\<lambda>e. e = SaveState)
           (concat (map (batch_events self) (enumerate 0 (dataset self)))))
         = length [i \<leftarrow> [0..<B]. int i mod N = 0]"
    using count_SaveState_batch_events[of self 0 "dataset self"] assms(2,7) by simp
  also have "\<dots> = nat \<lceil>real B / real_of_int N\<rceil>"
    unfolding idx by simp
  finally have cnt: "length (filter (\<lambda>e. e = SaveState)
           (concat (map (batch_events self) (enumerate 0 (dataset self)))))
         = nat \<lceil>real B / real_of_int N\<rceil>" .
  from run obs cnt idx show ?thesis by blast
qed

theorem checkpoint_cadence_witness:
  "(0::int) < 2 \<and> checkpoint_every ex_trainer = 2 \<and> grad_accum ex_trainer \<noteq> 0
   \<and> \<not> load_checkpoint ex_trainer \<and> state ex_world = TrainerState
   \<and> (\<forall>m b. has_loss (forward ex_env m b)) \<and> (3::nat) = length (dataset ex_trainer)
   \<and> (\<exists>w'. run_loops ex_trainer ex_env 1 None ex_world = Inr w' \<and>
         filter observed (trace w') =
           [SaveState, Forward 1, SaveState, SavePretrained ''./output/dist'', Forward 2,
            Forward 3, SaveState, SavePretrained ''./output/dist''] \<and>
         length (filter (\<lambda>e. e = SaveState)
                   (concat (map (batch_events ex_trainer) (enumerate 0 (dataset ex_trainer)))))
           = 2 \<and>
         [i \<leftarrow> [0..<3]. int i mod 2 = 0] = [0, 2])"
proof -
  have hyps: "(0::int) < 2" "checkpoint_every ex_trainer = 2" "grad_accum ex_trainer \<noteq> 0"
    "\<not> load_checkpoint ex_trainer" "state ex_world = TrainerState"
    "\<forall>m b. has_loss (forward ex_env m b)" "(3::nat) = length (dataset ex_trainer)"
    by (simp_all add: ex_trainer_def ex_world_def ex_env_def has_loss_def output_loss_def)
  have ev: "concat (map (batch_events ex_trainer) (enumerate 0 (dataset ex_trainer))) =
      [Forward 1, SaveState, SavePretrained ''./output/dist'', Forward 2,
       Forward 3, SaveState, SavePretrained ''./output/dist'']"
    by (simp add: enumerate_eq_zip batch_events_def full_checkpoint_def ex_trainer_def upt_rec)
  have idx: "[i \<leftarrow> [0..<3]. int i mod 2 = 0] = [0, 2]"
    by (simp add: upt_rec)
  from checkpoint_cadence[OF hyps] obtain w' where
    run: "run_loops ex_trainer ex_env 1 None ex_world = Inr w'"
    and obs: "filter observed (trace w') =
      filter observed (trace ex_world) @ [SaveState]
        @ concat (map (batch_events ex_trainer) (enumerate 0 (dataset ex_trainer)))"
    by blast
  from obs have "filter observed (trace w') =
      [SaveState, Forward 1, SaveState, SavePretrained ''./output/dist'', Forward 2,
       Forward 3, SaveState, SavePretrained ''./output/dist'']"
    unfolding ev by (simp add: ex_world_def)
  moreover have "length (filter (\<lambda>e. e = SaveState)
      (concat (map (batch_events ex_trainer) (enumerate 0 (dataset ex_trainer))))) = 2"
    unfolding ev by simp
  ultimately show ?thesis
    using hyps run idx by blast
qed

section \<open>Resuming\<close>

text \<open>
  Claim C3. With \<open>load_checkpoint\<close> enabled and no checkpoints directory (listing it
  raises \<open>FileNotFoundError\<close>), the start-up does not raise: the failure is logged as a
  warning (two lines), the fallback save \<^verbatim>\<open>_save(no_dist=True)\<close> is made, and the
  TrainerState is untouched. From a fresh TrainerState the epoch loop is then the one
  over the epochs \<open>0, \<dots>, epochs - 1\<close>, entered with epoch 0 and step 0.
\<close>

theorem resume_without_directory:
  assumes "load_checkpoint self"
    and "listdir env (output_dir self @ ''/checkpoints/'') = Inl FileNotFoundError"
  shows "startup self env w =
           Inr (w\<lparr>trace := trace w @
                  [ModelTrain, ListDir (output_dir self @ ''/checkpoints/''),
                   LogWarning, LogWarning, WaitForEveryone, SaveState]\<rparr>)
         \<and> (state w = TrainerState \<longrightarrow>
              run_loops self env epochs max_steps w =
                epoch_loop self env max_steps [0..epochs - 1]
                  (w\<lparr>trace := trace w @
                     [ModelTrain, ListDir (output_dir self @ ''/checkpoints/''),
                      LogWarning, LogWarning, WaitForEveryone, SaveState, AtexitRegister]\<rparr>))"
proof -
  have su: "startup self env w =
           Inr (w\<lparr>trace := trace w @
                  [ModelTrain, ListDir (output_dir self @ ''/checkpoints/''),
                   LogWarning, LogWarning, WaitForEveryone, SaveState]\<rparr>)"
    using assms by (simp add: startup_def resume_failed_def save_def emit_def Let_def)
  then show ?thesis
    by (simp add: run_loops_def emit_def py_range_def TrainerState_def Let_def)
qed

theorem resume_without_directory_witness:
  "load_checkpoint ex_resume
   \<and> listdir ex_env (output_dir ex_resume @ ''/checkpoints/'') = Inl FileNotFoundError
   \<and> startup ex_resume ex_env ex_world =
       Inr \<lparr>state = \<lparr>epoch = PInt 0, steps = PInt 0, global_loss = PInt 0\<rparr>, mstate = 0,
            trace = [ModelTrain, ListDir ''./output/checkpoints/'', LogWarning, LogWarning,
                     WaitForEveryone, SaveState]\<rparr>
   \<and> run_loops ex_resume ex_env 1 None ex_world =
       epoch_loop ex_resume ex_env None [0]
         \<lparr>state = \<lparr>epoch = PInt 0, steps = PInt 0, global_loss = PInt 0\<rparr>, mstate = 0,
          trace = [ModelTrain, ListDir ''./output/checkpoints/'', LogWarning, LogWarning,
                   WaitForEveryone, SaveState, AtexitRegister]\<rparr>"
proof -
  have h: "load_checkpoint ex_resume"
    "listdir ex_env (output_dir ex_resume @ ''/checkpoints/'') = Inl FileNotFoundError"
    by (simp_all add: ex_resume_def ex_trainer_def ex_env_def)
  have st: "state ex_world = TrainerState" by (simp add: ex_world_def)
  from resume_without_directory[OF h, of ex_world 1 None] h st show ?thesis
    by (simp add: ex_world_def ex_resume_def ex_trainer_def TrainerState_def upto.simps)
qed

section \<open>The value returned\<close>

text \<open>
  Claim C4. When start-up and loops complete, in the world \<open>w'\<close>, \<open>train\<close> returns
  \<open>global_loss / steps\<close> of \<open>w'\<close> after the last save, and it raises
  \<open>ZeroDivisionError\<close> exactly when the step counter of \<open>w'\<close> is zero. In a run without
  resume from a fresh TrainerState the step counter is the number of batches that the
  run gave to the model, so the error is raised exactly when the run took no step.
\<close>

theorem train_returns_mean_loss:
  assumes "run_loops self env epochs max_steps (emit (train_log max_steps) w) = Inr w'"
  shows "train self env epochs max_steps w =
           (if py_real (steps (state w')) = 0 then Inl ZeroDivisionError
            else Inr (PFloat (py_real (global_loss (state w')) / py_real (steps (state w'))),
                      save self False (emit [AtexitUnregister] w')))
         \<and> ((train self env epochs max_steps w = Inl ZeroDivisionError)
              = (py_real (steps (state w')) = 0))
         \<and> (\<not> load_checkpoint self \<and> state w = TrainerState \<longrightarrow>
              steps (state w') =
                PInt (int (forward_count (trace w')) - int (forward_count (trace w))))"
proof -
  have ret: "train self env epochs max_steps w =
           (if py_real (steps (state w')) = 0 then Inl ZeroDivisionError
            else Inr (PFloat (py_real (global_loss (state w')) / py_real (steps (state w'))),
                      save self False (emit [AtexitUnregister] w')))"
    using assms by (simp add: train_def train_accelerate_def finish_eq)
  then have err: "(train self env epochs max_steps w = Inl ZeroDivisionError)
      = (py_real (steps (state w')) = 0)"
    by simp
  have cnt: "\<not> load_checkpoint self \<and> state w = TrainerState \<longrightarrow>
          steps (state w') = PInt (int (forward_count (trace w')) - int (forward_count (trace w)))"
  proof
    assume fresh: "\<not> load_checkpoint self \<and> state w = TrainerState"
    let ?w0 = "emit (train_log max_steps) w"
    let ?w1 = "?w0\<lparr>trace := trace ?w0 @ [ModelTrain, WaitForEveryone, SaveState, AtexitRegister]\<rparr>"
    have fc: "forward_count (trace ?w1) = forward_count (trace w)"
      by (simp add: emit_def forward_count_def train_log_def split: option.splits)
    have "epoch (state ?w0) = PInt 0"
      using fresh by (simp add: emit_def TrainerState_def)
    from run_loops_no_resume[OF _ this] fresh assms
    have loop: "epoch_loop self env max_steps [0..epochs - 1] ?w1 = Inr w'" by simp
    have "steps (state ?w1) = PInt (- int (forward_count (trace w)) + int (forward_count (trace ?w1)))"
      using fresh fc by (simp add: emit_def TrainerState_def)
    from epoch_loop_counts[OF loop this] show
      "steps (state w') = PInt (int (forward_count (trace w')) - int (forward_count (trace w)))"
      by simp
  qed
  from ret err cnt show ?thesis by blast
qed

theorem train_returns_mean_loss_witness:
  "run_loops ex_trainer ex_env 1 None (emit (train_log None) ex_world) = Inr ex_done
   \<and> train ex_trainer ex_env 1 None ex_world
       = Inr (PFloat 2, save ex_trainer False (emit [AtexitUnregister] ex_done))
   \<and> steps (state ex_done) = PInt 3
   \<and> run_loops ex_no_batches ex_env 1 None (emit (train_log None) ex_world) = Inr ex_idle
   \<and> train ex_no_batches ex_env 1 None ex_world = Inl ZeroDivisionError"
proof -
  have h: "run_loops ex_trainer ex_env 1 None (emit (train_log None) ex_world) = Inr ex_done"
    by (simp add: run_loops_def startup_def save_def save_dist_def emit_def train_log_def
      py_range_def run_epoch_def batch_step_def output_loss_def Let_def upto.simps
      ex_trainer_def ex_env_def ex_world_def ex_done_def TrainerState_def)
  have h0: "run_loops ex_no_batches ex_env 1 None (emit (train_log None) ex_world) = Inr ex_idle"
    by (simp add: run_loops_def startup_def save_def save_dist_def emit_def train_log_def
      py_range_def run_epoch_def Let_def upto.simps
      ex_no_batches_def ex_trainer_def ex_world_def ex_idle_def TrainerState_def)
  from train_returns_mean_loss[OF h] train_returns_mean_loss[OF h0] h h0 show ?thesis
    by (simp add: ex_done_def ex_idle_def)
qed

section \<open>Skipping batches\<close>

text \<open>
  Claim C5. The skip of the first \<open>state.steps\<close> batches is not confined to the first
  epoch after a restore: it is made in every epoch that starts with a positive step
  counter, and the counter is never reset. The example Trainer, without any resume,
  trains two epochs over its three batches: the second epoch skips three batches and
  gives the model none.
\<close>

theorem second_epoch_skips_every_batch:
  "train ex_trainer ex_env 2 None ex_world =
     Inr (PFloat 2,
          \<lparr>state = \<lparr>epoch = PInt 2, steps = PInt 3, global_loss = PFloat 6\<rparr>,
           mstate = 3,
           trace =
             [LogInfo, LogInfo, LogInfo, LogInfo, LogInfo, LogInfo,
              ModelTrain, WaitForEveryone, SaveState, AtexitRegister,
              Forward 1, Backward, OptimizerStep, ZeroGrad, Print 0 0 1,
              WaitForEveryone, SaveState, SavePretrained ''./output/dist'',
              Forward 2, Backward, OptimizerStep, ZeroGrad, Print 0 1 2,
              Forward 3, Backward, OptimizerStep, ZeroGrad, Print 0 2 3,
              WaitForEveryone, SaveState, SavePretrained ''./output/dist'',
              SkipFirstBatches (PInt 3),
              AtexitUnregister, WaitForEveryone, SaveState,
              SavePretrained ''./output/dist'']\<rparr>)"
  by (simp add: train_def train_accelerate_def finish_def py_truediv_def
      run_loops_def startup_def save_def save_dist_def emit_def train_log_def
      py_range_def run_epoch_def batch_step_def output_loss_def skip_first_batches_def
      Let_def upto.simps ex_trainer_def ex_env_def ex_world_def TrainerState_def)

section \<open>The bound on the steps of an epoch\<close>

text \<open>
  Claim C6. With \<open>max_steps = K\<close> the batch loop of an epoch ends right after the body
  for batch index \<open>K\<close> (lemma \<open>batch_loop_max_steps\<close>), and the break leaves that epoch
  only. The batches that the break left out are nevertheless what the next epoch
  starts with: the step counter is not reset, so the next epoch skips the batches
  already seen. The example Trainer, without any resume, trains two epochs with
  \<open>max_steps = 0\<close>: epoch 0 gives the model the first batch and breaks, and epoch 1 skips
  one batch and gives the model the second batch, at batch index 0.
\<close>

theorem next_epoch_continues_after_break:
  "train ex_trainer ex_env 2 (Some 0) ex_world =
     Inr (PFloat (3 / 2),
          \<lparr>state = \<lparr>epoch = PInt 2, steps = PInt 2, global_loss = PFloat 3\<rparr>,
           mstate = 2,
           trace =
             [LogInfo, LogInfo, LogInfo, LogInfo, LogInfo, LogInfo,
              ModelTrain, WaitForEveryone, SaveState, AtexitRegister,
              Forward 1, Backward, OptimizerStep, ZeroGrad, Print 0 0 1,
              SkipFirstBatches (PInt 1),
              Forward 2, Backward, OptimizerStep, ZeroGrad, Print 1 0 2,
              AtexitUnregister, WaitForEveryone, SaveState,
              SavePretrained ''./output/dist'']\<rparr>)"
  by (simp add: train_def train_accelerate_def finish_def py_truediv_def
      run_loops_def startup_def save_def save_dist_def emit_def train_log_def
      py_range_def run_epoch_def batch_step_def output_loss_def skip_first_batches_def
      Let_def upto.simps ex_trainer_def ex_env_def ex_world_def TrainerState_def)

section \<open>The round trip of TrainerState\<close>

text \<open>
  Claim C7. Loading the mapping that \<open>state_dict\<close> returns for a state \<open>s\<close> into any
  \<open>TrainerState\<close> object \<open>t\<close> succeeds and makes its three fields those of \<open>s\<close>: the round
  trip is the identity. Loading a mapping \<open>d\<close> fails with \<open>KeyError\<close> exactly when one of
  the keys epoch, steps, global_loss is missing from \<open>d\<close>.
\<close>

theorem load_state_dict_round_trip:
  fixes s t :: "'v trainer_state"
  shows "load_state_dict t (state_dict s) = Inr s \<and>
         ((\<exists>k \<in> {''epoch'', ''steps'', ''global_loss''}. d k = None)
            \<longleftrightarrow> load_state_dict t d = Inl KeyError)"
proof
  show "load_state_dict t (state_dict s) = Inr s"
    by (simp add: load_state_dict_def getitem_state_dict)
next
  show "(\<exists>k \<in> {''epoch'', ''steps'', ''global_loss''}. d k = None)
          \<longleftrightarrow> load_state_dict t d = Inl KeyError"
    unfolding load_state_dict_KeyError_iff by simp
qed

theorem load_state_dict_round_trip_witness:
  "load_state_dict TrainerState
      (state_dict \<lparr>epoch = PInt 2, steps = PInt 7, global_loss = PFloat 3\<rparr>)
     = Inr \<lparr>epoch = PInt 2, steps = PInt 7, global_loss = PFloat 3\<rparr>
   \<and> (\<exists>k \<in> {''epoch'', ''steps'', ''global_loss''}.
         [''epoch'' \<mapsto> PInt 2, ''global_loss'' \<mapsto> PFloat 3] k = None)
   \<and> load_state_dict TrainerState [''epoch'' \<mapsto> PInt 2, ''global_loss'' \<mapsto> PFloat 3]
       = Inl KeyError"
  using load_state_dict_round_trip
    [of TrainerState "\<lparr>epoch = PInt 2, steps = PInt 7, global_loss = PFloat 3\<rparr>"
        "[''epoch'' \<mapsto> PInt 2, ''global_loss'' \<mapsto> PFloat 3]"]
  by simp

section \<open>Seeding\<close>

text \<open>
  Claim C8. The construction seeds the random number generators when the seed is true
  as a Python value, not when a seed is given: with the seed \<open>0\<close> it does exactly what it
  does with no seed, and \<^verbatim>\<open>set_seed\<close> is not called. With the seed \<open>1\<close> the call is made
  first.
\<close>

theorem zero_seed_is_not_seeded:
  "post_init (self\<lparr>seed := Some 0\<rparr>) m = post_init (self\<lparr>seed := None\<rparr>) m
   \<and> SetSeed 0 \<notin> set (trace (post_init (self\<lparr>seed := Some 0\<rparr>) m))
   \<and> trace (post_init (self\<lparr>seed := Some 1\<rparr>) m)
       = SetSeed 1 # trace (post_init (self\<lparr>seed := None\<rparr>) m)"
  by (simp add: post_init_def Let_def)

section \<open>Resuming from an empty directory\<close>

text \<open>
  Claim C9. With \<open>load_checkpoint\<close> enabled and a checkpoints directory that exists and
  is empty, taking the last element of the sorted listing raises \<open>IndexError\<close>. The
  handler catches \<open>FileNotFoundError\<close> only, so the start-up raises \<open>IndexError\<close>, and so
  does \<open>train\<close>.
\<close>

theorem resume_from_empty_directory:
  assumes "load_checkpoint self"
    and "listdir env (output_dir self @ ''/checkpoints/'') = Inr []"
  shows "startup self env w = Inl IndexError
         \<and> train self env epochs max_steps w = Inl IndexError"
  using assms
  by (simp add: train_def train_accelerate_def run_loops_def startup_def py_last_def
      resume_failed_def emit_def Let_def)

theorem resume_from_empty_directory_witness:
  "load_checkpoint ex_resume
   \<and> listdir ex_env_empty_dir (output_dir ex_resume @ ''/checkpoints/'') = Inr []
   \<and> startup ex_resume ex_env_empty_dir ex_world = Inl IndexError
   \<and> train ex_resume ex_env_empty_dir 1 None ex_world = Inl IndexError"
proof -
  have h: "load_checkpoint ex_resume"
    "listdir ex_env_empty_dir (output_dir ex_resume @ ''/checkpoints/'') = Inr []"
    by (simp_all add: ex_resume_def ex_trainer_def ex_env_empty_dir_def ex_env_def)
  from resume_from_empty_directory[OF h, of ex_world 1 None] h show ?thesis by simp
qed

section \<open>The break and the cadence\<close>

text \<open>
  Claim C10. With \<open>max_steps = K\<close> the break happens on the batch with index
  \<open>j = max K 0\<close>. When \<open>j\<close> is a multiple of \<open>checkpoint_every\<close>, the cadence would follow
  batch \<open>j\<close> with a full checkpoint, but the break comes first: what is observed of the
  loop is the batches before \<open>j\<close> with their checkpoints, then batch \<open>j\<close> given to the
  model and nothing after it. The step counter has counted batch \<open>j\<close> as well.
\<close>

theorem break_before_cadence:
  assumes "\<forall>m b. has_loss (forward env m b)" and "grad_accum self \<noteq> 0"
    and "checkpoint_every self \<noteq> 0"
    and "j = nat K" and "j < length ds"
    and "int j mod checkpoint_every self = 0"
  shows "\<exists>w'. batch_loop self env (Some K) ep 0 ds w = Inr w' \<and>
           filter observed (trace w') =
             filter observed (trace w)
               @ concat (map (batch_events self) (enumerate 0 (take j ds)))
               @ [Forward (ds ! j)] \<and>
           batch_events self (j, ds ! j) = Forward (ds ! j) # full_checkpoint self \<and>
           (\<forall>s. steps (state w) = PInt s \<longrightarrow> steps (state w') = PInt (s + int j + 1))"
proof -
  from batch_loop_None[OF assms(1,2,3), of ep 0 "take j ds" w] obtain w1 where
    w1: "batch_loop self env None ep 0 (take j ds) w = Inr w1"
    and tr1: "filter observed (trace w1) =
       filter observed (trace w) @ concat (map (batch_events self) (enumerate 0 (take j ds)))"
    and st1: "\<forall>s. steps (state w) = PInt s \<longrightarrow>
       steps (state w1) = PInt (s + int (length (take j ds)))"
    by blast
  from batch_step_total[OF _ assms(2)] assms(1) obtain w' where
    w': "batch_step self env ep j (ds ! j) w1 = Inr w'" by blast
  have "nat (K - int 0) < length ds" using assms(4,5) by simp
  from batch_loop_max_steps[OF this, of self env ep w] w1 w' assms(4)
  have run: "batch_loop self env (Some K) ep 0 ds w = Inr w'" by simp
  have tr: "filter observed (trace w') =
      filter observed (trace w) @ concat (map (batch_events self) (enumerate 0 (take j ds)))
        @ [Forward (ds ! j)]"
    using batch_step_Inr(1)[OF w'] tr1 by simp
  have ev: "batch_events self (j, ds ! j) = Forward (ds ! j) # full_checkpoint self"
    using assms(6) by (simp add: batch_events_def)
  have len: "length (take j ds) = j" using assms(5) by simp
  have st: "\<forall>s. steps (state w) = PInt s \<longrightarrow> steps (state w') = PInt (s + int j + 1)"
    using batch_step_Inr(2)[OF w'] st1 len by simp
  from run tr ev st show ?thesis by blast
qed

theorem break_before_cadence_witness:
  "(\<forall>m b. has_loss (forward ex_env m b)) \<and> grad_accum ex_trainer \<noteq> 0
   \<and> checkpoint_every ex_trainer \<noteq> 0 \<and> (2::nat) = nat 2 \<and> 2 < length [1, 2, 3 :: real]
   \<and> int 2 mod checkpoint_every ex_trainer = 0
   \<and> (\<exists>w'. batch_loop ex_trainer ex_env (Some 2) 0 0 [1, 2, 3] ex_world = Inr w' \<and>
         filter observed (trace w') =
           [Forward 1, SaveState, SavePretrained ''./output/dist'', Forward 2, Forward 3] \<and>
         steps (state w') = PInt 3)"
proof -
  have hyps: "\<forall>m b. has_loss (forward ex_env m b)" "grad_accum ex_trainer \<noteq> 0"
    "checkpoint_every ex_trainer \<noteq> 0" "(2::nat) = nat 2" "2 < length [1, 2, 3 :: real]"
    "int 2 mod checkpoint_every ex_trainer = 0"
    by (simp_all add: ex_trainer_def ex_env_def has_loss_def output_loss_def)
  have st: "steps (state ex_world) = PInt 0"
    by (simp add: ex_world_def TrainerState_def)
  have ev: "concat (map (batch_events ex_trainer) (enumerate 0 (take 2 [1, 2, 3 :: real]))) =
      [Forward 1, SaveState, SavePretrained ''./output/dist'', Forward 2]"
    by (simp add: enumerate_eq_zip batch_events_def full_checkpoint_def ex_trainer_def upt_rec)
  from break_before_cadence[OF hyps, of 0 ex_world] obtain w' where
    run: "batch_loop ex_trainer ex_env (Some 2) 0 0 [1, 2, 3] ex_world = Inr w'"
    and obs: "filter observed (trace w') =
      filter observed (trace ex_world)
        @ concat (map (batch_events ex_trainer) (enumerate 0 (take 2 [1, 2, 3 :: real])))
        @ [Forward ([1, 2, 3 :: real] ! 2)]"
    and cnt: "\<forall>s. steps (state ex_world) = PInt s \<longrightarrow> steps (state w') = PInt (s + int 2 + 1)"
    by blast
  from obs have "filter observed (trace w') =
      [Forward 1, SaveState, SavePretrained ''./output/dist'', Forward 2, Forward 3]"
    unfolding ev by (simp add: ex_world_def)
  moreover from cnt st have "steps (state w') = PInt 3" by simp
  ultimately show ?thesis using hyps run by blast
qed

end
